theory Spec2Isabelle
  imports Complex_Main
begin

section \<open>JavaScript numbers\<close>

text \<open>
  The slider component \<^verbatim>\<open>webapp/src/components/Slider.vue\<close> computes with JavaScript
  numbers, which are binary64 floating-point numbers. A finite number is modelled by the
  real it denotes and the three special values are kept apart. Every arithmetic operation
  rounds its exact result to binary64 (\<open>b64\<close> below: to the nearest number, a tie to the
  even one, beyond the largest number to an infinity), and the special values follow the
  IEEE rules of the language. A number that is given, a prop or a raw position, is
  written as a real; one that is not a binary64 number is rounded by the first operation
  on it. The sign of zero is outside this model: there is one zero.
\<close>

datatype jsnum = Fin real | NaN | PosInf | NegInf

subsection \<open>Rounding to binary64\<close>

text \<open>The nearest integer, a tie going to the even one.\<close>

definition rne :: "real \<Rightarrow> int" where
  "rne t =
     (let f = \<lfloor>t\<rfloor>; r = t - of_int f
      in if r < 1 / 2 then f
         else if 1 / 2 < r then f + 1
         else if even f then f else f + 1)"

definition pow2 :: "int \<Rightarrow> real" where
  "pow2 k = (if 0 \<le> k then 2 ^ nat k else 1 / 2 ^ nat (- k))"

text \<open>
  The binary exponent \<open>e\<close> of a positive real, \<open>2\<^sup>e \<le> x < 2\<^sup>e\<^sup>+\<^sup>1\<close>, found by halving or
  doubling. It stays between -1022 and 1023: below, the numbers are subnormal and share
  the exponent -1022; above, the rounding overflows.
\<close>

fun expo_up :: "nat \<Rightarrow> real \<Rightarrow> int" where
  "expo_up 0 x = 0"
| "expo_up (Suc n) x = (if 2 \<le> x then expo_up n (x / 2) + 1 else 0)"

fun expo_down :: "nat \<Rightarrow> real \<Rightarrow> int" where
  "expo_down 0 x = 0"
| "expo_down (Suc n) x = (if x < 1 then expo_down n (x * 2) - 1 else 0)"

definition expo :: "real \<Rightarrow> int" where
  "expo x = (if 1 \<le> x then expo_up 1023 x else expo_down 1022 x)"

text \<open>
  The binary64 number of a real: 53 significant bits, so the real is rounded to a whole
  multiple of \<open>2\<^sup>e\<^sup>-\<^sup>5\<^sup>2\<close>; a result of magnitude \<open>2\<^sup>1\<^sup>0\<^sup>2\<^sup>4\<close> is an infinity. It is also
  the number that a decimal literal denotes: \<open>b64 (1 / 10)\<close> is the number written
  \<^verbatim>\<open>0.1\<close>.
\<close>

definition b64 :: "real \<Rightarrow> jsnum" where
  "b64 x =
     (if x = 0 then Fin 0
      else let e = expo \<bar>x\<bar>;
               y = of_int (rne (x * pow2 (52 - e))) * pow2 (e - 52)
           in if 2 ^ 1024 \<le> \<bar>y\<bar> then (if 0 < x then PosInf else NegInf) else Fin y)"

subsection \<open>Operations\<close>

text \<open>\<^verbatim>\<open>Number.isFinite\<close>\<close>

fun isFinite :: "jsnum \<Rightarrow> bool" where
  "isFinite (Fin x) = True"
| "isFinite v = False"

text \<open>Truthiness of a number: \<^verbatim>\<open>0\<close> and \<^verbatim>\<open>NaN\<close> are falsy.\<close>

fun truthy :: "jsnum \<Rightarrow> bool" where
  "truthy (Fin x) = (x \<noteq> 0)"
| "truthy NaN = False"
| "truthy v = True"

text \<open>\<^verbatim>\<open>a || b\<close> on numbers.\<close>

definition js_or :: "jsnum \<Rightarrow> jsnum \<Rightarrow> jsnum" where
  "js_or a b = (if truthy a then a else b)"

text \<open>\<^verbatim>\<open>a !== b\<close> on numbers: \<^verbatim>\<open>NaN\<close> differs from every number, itself included.\<close>

definition strict_neq :: "jsnum \<Rightarrow> jsnum \<Rightarrow> bool" where
  "strict_neq a b = (a = NaN \<or> b = NaN \<or> a \<noteq> b)"

fun js_neg :: "jsnum \<Rightarrow> jsnum" where
  "js_neg (Fin x) = Fin (- x)"
| "js_neg NaN = NaN"
| "js_neg PosInf = NegInf"
| "js_neg NegInf = PosInf"

fun js_add :: "jsnum \<Rightarrow> jsnum \<Rightarrow> jsnum" where
  "js_add (Fin x) (Fin y) = b64 (x + y)"
| "js_add NaN b = NaN"
| "js_add a NaN = NaN"
| "js_add PosInf NegInf = NaN"
| "js_add NegInf PosInf = NaN"
| "js_add PosInf b = PosInf"
| "js_add NegInf b = NegInf"
| "js_add a PosInf = PosInf"
| "js_add a NegInf = NegInf"

definition js_sub :: "jsnum \<Rightarrow> jsnum \<Rightarrow> jsnum" where
  "js_sub a b = js_add a (js_neg b)"

text \<open>The sign of a number that is neither zero nor \<^verbatim>\<open>NaN\<close>: \<open>True\<close> for positive.\<close>

fun positive :: "jsnum \<Rightarrow> bool" where
  "positive (Fin x) = (0 < x)"
| "positive PosInf = True"
| "positive v = False"

definition signed_inf :: "bool \<Rightarrow> jsnum" where
  "signed_inf pos = (if pos then PosInf else NegInf)"

fun js_mul :: "jsnum \<Rightarrow> jsnum \<Rightarrow> jsnum" where
  "js_mul (Fin x) (Fin y) = b64 (x * y)"
| "js_mul NaN b = NaN"
| "js_mul a NaN = NaN"
| "js_mul (Fin x) b = (if x = 0 then NaN else signed_inf (positive (Fin x) = positive b))"
| "js_mul a (Fin y) = (if y = 0 then NaN else signed_inf (positive a = positive (Fin y)))"
| "js_mul a b = signed_inf (positive a = positive b)"

fun js_div :: "jsnum \<Rightarrow> jsnum \<Rightarrow> jsnum" where
  "js_div NaN b = NaN"
| "js_div a NaN = NaN"
| "js_div (Fin x) (Fin y) =
     (if y \<noteq> 0 then b64 (x / y)
      else if x = 0 then NaN
      else signed_inf (0 < x))"
| "js_div (Fin x) b = Fin 0"
| "js_div a (Fin y) = signed_inf (positive a = (0 \<le> y))"
| "js_div a b = NaN"

text \<open>
  \<^verbatim>\<open>10 ** decimals\<close> for a count of decimals: the power, rounded to binary64 (up to
  \<open>10\<^sup>2\<^sup>2\<close> it is a binary64 number and the result is exact).
\<close>

definition js_pow10 :: "nat \<Rightarrow> jsnum" where
  "js_pow10 n = b64 (10 ^ n)"

text \<open>
  \<^verbatim>\<open>Math.max\<close> and \<^verbatim>\<open>Math.min\<close> of two numbers: \<^verbatim>\<open>NaN\<close> as soon as one argument
  is \<^verbatim>\<open>NaN\<close>.
\<close>

fun js_le :: "jsnum \<Rightarrow> jsnum \<Rightarrow> bool" where
  "js_le (Fin x) (Fin y) = (x \<le> y)"
| "js_le NaN b = False"
| "js_le a NaN = False"
| "js_le NegInf b = True"
| "js_le PosInf b = (b = PosInf)"
| "js_le (Fin x) b = (b = PosInf)"

definition Math_max :: "jsnum \<Rightarrow> jsnum \<Rightarrow> jsnum" where
  "Math_max a b = (if a = NaN \<or> b = NaN then NaN else if js_le a b then b else a)"

definition Math_min :: "jsnum \<Rightarrow> jsnum \<Rightarrow> jsnum" where
  "Math_min a b = (if a = NaN \<or> b = NaN then NaN else if js_le a b then a else b)"

text \<open>
  \<^verbatim>\<open>Math.round\<close>: the nearest integer, a tie going to the larger one
  (\<^verbatim>\<open>Math.round(2.5)\<close> is 3 and \<^verbatim>\<open>Math.round(-2.5)\<close> is -2). The integer is computed
  exactly; for a binary64 argument it is a binary64 number.
\<close>

fun Math_round :: "jsnum \<Rightarrow> jsnum" where
  "Math_round (Fin x) = Fin (of_int \<lfloor>x + 1 / 2\<rfloor>)"
| "Math_round v = v"

text \<open>\<^verbatim>\<open>str.indexOf(c)\<close>; \<open>None\<close> stands for the result \<^verbatim>\<open>-1\<close>.\<close>

fun indexOf :: "string \<Rightarrow> char \<Rightarrow> nat option" where
  "indexOf [] c = None"
| "indexOf (x # xs) c = (if x = c then Some 0 else map_option Suc (indexOf xs c))"

text \<open>\<^verbatim>\<open>a ?? b\<close>; \<open>None\<close> stands for \<^verbatim>\<open>null\<close>.\<close>

fun nullish :: "'a option \<Rightarrow> 'a \<Rightarrow> 'a" where
  "nullish None d = d"
| "nullish (Some v) d = v"

section \<open>The component's props\<close>

text \<open>
  What the parent passes: \<open>None\<close> is a prop left out (\<^verbatim>\<open>undefined\<close>). The model value
  may also be passed as \<^verbatim>\<open>null\<close>, which the component handles with \<^verbatim>\<open>??\<close>.
\<close>

datatype 'a passed = Undefined | Null | Value 'a

record attrs =
  min_attr :: "jsnum option"
  max_attr :: "jsnum option"
  step_attr :: "jsnum option"
  modelValue_attr :: "jsnum passed"
  showInput_attr :: "bool option"

record props =
  min_prop :: jsnum
  max_prop :: jsnum
  step_prop :: jsnum
  modelValue :: "jsnum option"
  showInput :: bool

text \<open>
  \<^verbatim>\<open>defineProps\<close> with the declared defaults: a prop that is left out takes its default,
  a \<^verbatim>\<open>null\<close> stays \<^verbatim>\<open>null\<close>.
\<close>

definition defineProps :: "attrs \<Rightarrow> props" where
  "defineProps a =
     \<lparr>min_prop = (case min_attr a of None \<Rightarrow> Fin 0 | Some v \<Rightarrow> v),
      max_prop = (case max_attr a of None \<Rightarrow> Fin 100 | Some v \<Rightarrow> v),
      step_prop = (case step_attr a of None \<Rightarrow> Fin 1 | Some v \<Rightarrow> v),
      modelValue = (case modelValue_attr a of
                      Undefined \<Rightarrow> Some (Fin 1) | Null \<Rightarrow> None | Value v \<Rightarrow> Some v),
      showInput = (case showInput_attr a of None \<Rightarrow> True | Some b \<Rightarrow> b)\<rparr>"

section \<open>Quantization\<close>

text \<open>
  \<^verbatim>\<open>String(step)\<close> is the language's conversion of a number to text. It is a parameter
  \<open>str\<close> of the model: what is proved for every \<open>str\<close> holds for the real one, and a
  concrete scenario names the texts it relies on, such as \<^verbatim>\<open>String(0.25) = "0.25"\<close>.
\<close>

definition stepDecimals :: "(jsnum \<Rightarrow> string) \<Rightarrow> props \<Rightarrow> nat" where
  "stepDecimals str p =
     (let step = js_or (step_prop p) (Fin 1);
          stepStr = str step
      in case indexOf stepStr CHR ''.'' of
           None \<Rightarrow> 0
         | Some dotIndex \<Rightarrow> length stepStr - dotIndex - 1)"

definition roundToStepPrecision :: "(jsnum \<Rightarrow> string) \<Rightarrow> props \<Rightarrow> jsnum \<Rightarrow> jsnum" where
  "roundToStepPrecision str p v =
     (let decimals = stepDecimals str p;
          factor = js_pow10 decimals
      in js_div (Math_round (js_mul v factor)) factor)"

text \<open>
  \<open>snappedValue\<close> as a function of the raw position. The ref \<^verbatim>\<open>rawSliderValue\<close> only
  ever holds a number (every assignment stores one), so its \<^verbatim>\<open>?? min\<close> never applies.
\<close>

definition snappedValue :: "(jsnum \<Rightarrow> string) \<Rightarrow> props \<Rightarrow> jsnum \<Rightarrow> jsnum" where
  "snappedValue str p raw =
     (let min = min_prop p;
          max = max_prop p;
          step = js_or (step_prop p) (Fin 1);
          clampedRaw = Math_min max (Math_max min raw);
          stepsFromMin = Math_round (js_div (js_sub clampedRaw min) step);
          snapped = js_add min (js_mul stepsFromMin step);
          clampedSnapped = Math_min max (Math_max min snapped)
      in roundToStepPrecision str p clampedSnapped)"

definition sliderValPercent :: "props \<Rightarrow> jsnum \<Rightarrow> jsnum" where
  "sliderValPercent p raw =
     (let range = js_sub (max_prop p) (min_prop p)
      in if \<not> truthy range then Fin 0
         else let clamped = Math_min (max_prop p) (Math_max (min_prop p) raw)
              in js_mul (js_div (js_sub clamped (min_prop p)) range) (Fin 100))"

section \<open>State and reactions\<close>

text \<open>
  The state of one component instance: the ref \<^verbatim>\<open>rawSliderValue\<close>, the value of
  \<open>snappedValue\<close> that \<^verbatim>\<open>watch(snappedValue)\<close> has seen last, and the values emitted
  as \<^verbatim>\<open>update:modelValue\<close> so far, the oldest first.
\<close>

record state =
  rawSliderValue :: jsnum
  watched :: jsnum
  emitted :: "jsnum list"

text \<open>Mounting runs the script block: the ref is created, the watcher sees the first value.\<close>

definition mount :: "(jsnum \<Rightarrow> string) \<Rightarrow> props \<Rightarrow> state" where
  "mount str p =
     (let raw = nullish (modelValue p) (min_prop p)
      in \<lparr>rawSliderValue = raw, watched = snappedValue str p raw, emitted = []\<rparr>)"

text \<open>
  \<^verbatim>\<open>watch(() => props.modelValue, ...)\<close>: the callback, given the new value of the prop.
\<close>

definition watch_modelValue ::
  "(jsnum \<Rightarrow> string) \<Rightarrow> props \<Rightarrow> jsnum option \<Rightarrow> state \<Rightarrow> state" where
  "watch_modelValue str p value s =
     (let fallback = min_prop p;
          next = nullish value fallback
      in if strict_neq next (snappedValue str p (rawSliderValue s))
         then s\<lparr>rawSliderValue := next\<rparr>
         else s)"

text \<open>
  \<^verbatim>\<open>watch(snappedValue, ...)\<close>: after a change of the raw position the framework
  computes \<open>snappedValue\<close> again and runs the callback, which emits the value, when it
  is not the value seen last. (The framework compares with \<^verbatim>\<open>Object.is\<close>, which takes
  \<^verbatim>\<open>NaN\<close> for equal to itself, as the equality of the model does, and tells the two
  zeros apart, which the model, having one zero, cannot.)
\<close>

definition watch_snappedValue :: "(jsnum \<Rightarrow> string) \<Rightarrow> props \<Rightarrow> state \<Rightarrow> state" where
  "watch_snappedValue str p s =
     (let value = snappedValue str p (rawSliderValue s)
      in if value \<noteq> watched s
         then s\<lparr>watched := value, emitted := emitted s @ [value]\<rparr>
         else s)"

text \<open>
  The two input handlers. The argument \<open>text\<close> is \<^verbatim>\<open>event.target.value\<close>, the text that
  the control holds, and \<open>toNumber\<close> is the language's conversion \<^verbatim>\<open>Number(...)\<close> of a
  text to a number, a parameter of the model as \<open>str\<close> is. The range control only ever
  holds the text of a finite number; the number field holds the text of a number or,
  when it is empty or what was typed is not a number, the empty text.
\<close>

definition onRangeInput :: "(string \<Rightarrow> jsnum) \<Rightarrow> string \<Rightarrow> state \<Rightarrow> state" where
  "onRangeInput toNumber text s = s\<lparr>rawSliderValue := toNumber text\<rparr>"

definition onNumberInput :: "(string \<Rightarrow> jsnum) \<Rightarrow> string \<Rightarrow> state \<Rightarrow> state" where
  "onNumberInput toNumber text s =
     (let value = toNumber text
      in if isFinite value then s\<lparr>rawSliderValue := value\<rparr> else s)"

text \<open>One event from start to end: the handler, then the watcher of \<open>snappedValue\<close>.\<close>

definition setFromUpstream ::
  "(jsnum \<Rightarrow> string) \<Rightarrow> props \<Rightarrow> jsnum option \<Rightarrow> state \<Rightarrow> state" where
  "setFromUpstream str p value s = watch_snappedValue str p (watch_modelValue str p value s)"

definition rangeInput ::
  "(jsnum \<Rightarrow> string) \<Rightarrow> props \<Rightarrow> (string \<Rightarrow> jsnum) \<Rightarrow> string \<Rightarrow> state \<Rightarrow> state" where
  "rangeInput str p toNumber text s = watch_snappedValue str p (onRangeInput toNumber text s)"

definition numberInput ::
  "(jsnum \<Rightarrow> string) \<Rightarrow> props \<Rightarrow> (string \<Rightarrow> jsnum) \<Rightarrow> string \<Rightarrow> state \<Rightarrow> state" where
  "numberInput str p toNumber text s = watch_snappedValue str p (onNumberInput toNumber text s)"

section \<open>Divisions with the divisor checked\<close>

text \<open>
  A division in the language never fails: by zero it gives an infinity or \<^verbatim>\<open>NaN\<close>. To
  say that no division by zero occurs, the three functions that divide are written once
  more with a division that gives \<open>None\<close> when the divisor is zero, and with nothing
  else changed.
\<close>

definition checked_div :: "jsnum \<Rightarrow> jsnum \<Rightarrow> jsnum option" where
  "checked_div a b = (if b = Fin 0 then None else Some (js_div a b))"

definition roundToStepPrecision_checked ::
  "(jsnum \<Rightarrow> string) \<Rightarrow> props \<Rightarrow> jsnum \<Rightarrow> jsnum option" where
  "roundToStepPrecision_checked str p v =
     (let decimals = stepDecimals str p;
          factor = js_pow10 decimals
      in checked_div (Math_round (js_mul v factor)) factor)"

definition snappedValue_checked ::
  "(jsnum \<Rightarrow> string) \<Rightarrow> props \<Rightarrow> jsnum \<Rightarrow> jsnum option" where
  "snappedValue_checked str p raw =
     (let min = min_prop p;
          max = max_prop p;
          step = js_or (step_prop p) (Fin 1);
          clampedRaw = Math_min max (Math_max min raw)
      in case checked_div (js_sub clampedRaw min) step of
           None \<Rightarrow> None
         | Some ratio \<Rightarrow>
             let stepsFromMin = Math_round ratio;
                 snapped = js_add min (js_mul stepsFromMin step);
                 clampedSnapped = Math_min max (Math_max min snapped)
             in roundToStepPrecision_checked str p clampedSnapped)"

definition sliderValPercent_checked :: "props \<Rightarrow> jsnum \<Rightarrow> jsnum option" where
  "sliderValPercent_checked p raw =
     (let range = js_sub (max_prop p) (min_prop p)
      in if \<not> truthy range then Some (Fin 0)
         else let clamped = Math_min (max_prop p) (Math_max (min_prop p) raw)
              in case checked_div (js_sub clamped (min_prop p)) range of
                   None \<Rightarrow> None
                 | Some ratio \<Rightarrow> Some (js_mul ratio (Fin 100)))"

section \<open>Auxiliary definitions\<close>

text \<open>
  The watcher of \<open>snappedValue\<close> has nothing left to do: the value it saw last is the
  current one. This holds after mounting and after every event.
\<close>

definition settled :: "(jsnum \<Rightarrow> string) \<Rightarrow> props \<Rightarrow> state \<Rightarrow> bool" where
  "settled str p s = (watched s = snappedValue str p (rawSliderValue s))"

text \<open>
  The texts of the steps that the concrete scenarios below configure:
  \<^verbatim>\<open>String(1) = "1"\<close>, \<^verbatim>\<open>String(0.5) = "0.5"\<close>, \<^verbatim>\<open>String(0.25) = "0.25"\<close>,
  \<^verbatim>\<open>String(-0.5) = "-0.5"\<close> and \<^verbatim>\<open>String(0.1) = "0.1"\<close>. The scenarios convert no other
  number.
\<close>

definition String_of_step :: "jsnum \<Rightarrow> string" where
  "String_of_step v =
     (if v = Fin 1 then ''1''
      else if v = Fin (1 / 2) then ''0.5''
      else if v = Fin (1 / 4) then ''0.25''
      else if v = Fin (- (1 / 2)) then ''-0.5''
      else if v = b64 (1 / 10) then ''0.1''
      else [])"

text \<open>
  The numbers of the texts that the concrete scenarios below deliver:
  \<^verbatim>\<open>Number("") = 0\<close>, \<^verbatim>\<open>Number("7") = 7\<close> and \<^verbatim>\<open>Number("abc") = NaN\<close>. The scenarios
  convert no other text.
\<close>

definition Number_of_text :: "string \<Rightarrow> jsnum" where
  "Number_of_text text =
     (if text = [] then Fin 0
      else if text = ''7'' then Fin 7
      else NaN)"

section \<open>Evaluating the rounding\<close>

lemma expo_up_numeral:
  "expo_up (numeral k) x = (if 2 \<le> x then expo_up (pred_numeral k) (x / 2) + 1 else 0)"
  by (simp add: numeral_eq_Suc)

lemma expo_down_numeral:
  "expo_down (numeral k) x = (if x < 1 then expo_down (pred_numeral k) (x * 2) - 1 else 0)"
  by (simp add: numeral_eq_Suc)

text \<open>The definitions to unfold when a rounding is evaluated at a given number.\<close>

lemmas b64_eval =
  b64_def expo_def rne_def pow2_def Let_def expo_up_numeral expo_down_numeral

lemma b64_zero [simp]: "b64 0 = Fin 0"
  by (simp add: b64_def)

lemma Math_max_Fin [simp]: "Math_max (Fin a) (Fin b) = Fin (max a b)"
  by (simp add: Math_max_def max_def)

lemma Math_min_Fin [simp]: "Math_min (Fin a) (Fin b) = Fin (min a b)"
  by (simp add: Math_min_def min_def)

lemma js_sub_Fin [simp]: "js_sub (Fin a) (Fin b) = b64 (a - b)"
  by (simp add: js_sub_def)

lemma js_or_Fin [simp]: "js_or (Fin s) (Fin 1) = Fin (if s = 0 then 1 else s)"
  by (simp add: js_or_def)

text \<open>The definitions to unfold when a scenario is evaluated.\<close>

lemmas slider_eval =
  snappedValue_def roundToStepPrecision_def stepDecimals_def sliderValPercent_def
  js_or_def js_pow10_def String_of_step_def b64_eval

section \<open>Properties of the rounding\<close>


lemma rne_ge_one: "1 \<le> t \<Longrightarrow> 1 \<le> rne t"
  unfolding rne_def Let_def by (auto; linarith)

lemma expo_up_bounds: "1 \<le> x \<Longrightarrow> 0 \<le> expo_up n x \<and> 2 ^ nat (expo_up n x) \<le> x"
proof (induction n arbitrary: x)
  case 0
  then show ?case by simp
next
  case (Suc n)
  show ?case
  proof (cases "2 \<le> x")
    case True
    then have "1 \<le> x / 2" by simp
    from Suc.IH [OF this] have ih: "0 \<le> expo_up n (x / 2)" "2 ^ nat (expo_up n (x / 2)) \<le> x / 2"
      by simp_all
    have "nat (expo_up n (x / 2) + 1) = Suc (nat (expo_up n (x / 2)))"
      using ih(1) by simp
    then show ?thesis
      using True ih by simp
  next
    case False
    then show ?thesis using Suc.prems by simp
  qed
qed

lemma b64_pos_nonzero:
  assumes "1 \<le> x"
  shows "b64 x \<noteq> Fin 0"
proof -
  define e where "e = expo x"
  have ax: "\<bar>x\<bar> = x"
    using assms by simp
  have ex: "e = expo_up 1023 x"
    using assms by (simp add: e_def expo_def)
  from expo_up_bounds [OF assms, of 1023] have e0: "0 \<le> e" and le: "2 ^ nat e \<le> x"
    by (simp_all add: ex)
  have "1 \<le> x * pow2 (52 - e)"
  proof (cases "0 \<le> 52 - e")
    case True
    then have "pow2 (52 - e) = 2 ^ nat (52 - e)"
      by (simp add: pow2_def)
    moreover have "(1::real) \<le> 2 ^ nat (52 - e)"
      by simp
    ultimately have "1 * 1 \<le> x * pow2 (52 - e)"
      using assms by (intro mult_mono) simp_all
    then show ?thesis
      by simp
  next
    case False
    then have p: "pow2 (52 - e) = 1 / 2 ^ nat (e - 52)"
      by (simp add: pow2_def)
    have "nat (e - 52) \<le> nat e"
      by simp
    then have "(2::real) ^ nat (e - 52) \<le> 2 ^ nat e"
      by (intro power_increasing) simp_all
    then have "2 ^ nat (e - 52) \<le> x"
      using le by linarith
    then show ?thesis
      by (simp add: p)
  qed
  then have "1 \<le> rne (x * pow2 (52 - e))"
    by (rule rne_ge_one)
  then have m: "0 < real_of_int (rne (x * pow2 (52 - e)))"
    by simp
  have "0 < pow2 (e - 52)"
    by (simp add: pow2_def)
  with m have "0 < real_of_int (rne (x * pow2 (52 - e))) * pow2 (e - 52)"
    by simp
  then have "real_of_int (rne (x * pow2 (52 - e))) * pow2 (e - 52) \<noteq> 0"
    by (rule less_imp_neq [THEN not_sym])
  then have "Fin (real_of_int (rne (x * pow2 (52 - e))) * pow2 (e - 52)) \<noteq> Fin 0"
    by (simp only: jsnum.inject not_False_eq_True)
  then show ?thesis
    unfolding b64_def Let_def ax e_def [symmetric] using assms by auto
qed

lemma js_pow10_nonzero: "js_pow10 n \<noteq> Fin 0"
  unfolding js_pow10_def by (rule b64_pos_nonzero) simp

section \<open>No divisor is zero\<close>

lemma js_or_nonzero: "js_or a (Fin 1) \<noteq> Fin 0"
  by (cases a) (simp_all add: js_or_def)

lemma roundToStepPrecision_checked:
  "roundToStepPrecision_checked str p v = Some (roundToStepPrecision str p v)"
  by (simp add: roundToStepPrecision_checked_def roundToStepPrecision_def checked_div_def
      js_pow10_nonzero Let_def)

lemma snappedValue_checked:
  "snappedValue_checked str p raw = Some (snappedValue str p raw)"
  by (simp add: snappedValue_checked_def snappedValue_def checked_div_def js_or_nonzero
      roundToStepPrecision_checked Let_def)

lemma sliderValPercent_checked:
  "sliderValPercent_checked p raw = Some (sliderValPercent p raw)"
proof -
  have "truthy v \<Longrightarrow> v \<noteq> Fin 0" for v
    by (cases v) simp_all
  then show ?thesis
    by (auto simp: sliderValPercent_checked_def sliderValPercent_def checked_div_def Let_def)
qed

section \<open>Rounding within a binade\<close>







section \<open>The input handlers\<close>

lemma onNumberInput_rejects:
  assumes "\<not> isFinite (toNumber text)"
  shows "onNumberInput toNumber text s = s"
  using assms by (simp add: onNumberInput_def)

lemma onRangeInput_stores: "rawSliderValue (onRangeInput toNumber text s) = toNumber text"
  by (simp add: onRangeInput_def)

section \<open>Zero-width ranges\<close>

lemma sliderValPercent_zero_width:
  assumes "max_prop p = min_prop p"
  shows "sliderValPercent p raw = Fin 0"
  using assms by (cases "min_prop p") (simp_all add: sliderValPercent_def js_sub_def)

lemma scenario_zero_width:
  assumes "str (Fin 1) = ''1''"
  shows "snappedValue str \<lparr>min_prop = Fin 5, max_prop = Fin 5, step_prop = Fin 1,
           modelValue = m, showInput = b\<rparr> (Fin x) = Fin 5"
  using assms
  by (simp add: snappedValue_def roundToStepPrecision_def stepDecimals_def js_or_def
      js_pow10_def b64_eval cong: let_weak_cong)

section \<open>The watcher is settled after every event\<close>

lemma settled_mount: "settled str p (mount str p)"
  by (simp add: settled_def mount_def Let_def)

lemma settled_watch_snappedValue: "settled str p (watch_snappedValue str p s)"
  by (simp add: settled_def watch_snappedValue_def Let_def)

lemma watch_snappedValue_settled: "settled str p s \<Longrightarrow> watch_snappedValue str p s = s"
  by (simp add: settled_def watch_snappedValue_def Let_def)

lemma settled_events:
  "settled str p (setFromUpstream str p u s)"
  "settled str p (rangeInput str p toNumber text s)"
  "settled str p (numberInput str p toNumber text s)"
  by (simp_all add: setFromUpstream_def rangeInput_def numberInput_def
      settled_watch_snappedValue)

section \<open>The claims\<close>

text \<open>
  C1. No feedback loop: for every \<open>min\<close>, \<open>max\<close> and \<open>step\<close> and every state in which
  the derived quantized value equals \<open>v\<close> (as \<^verbatim>\<open>===\<close> compares, so \<open>v\<close> is not
  \<^verbatim>\<open>NaN\<close>), the watcher of the model value receiving \<open>v\<close> does not touch the raw
  position, and the event emits nothing of its own: it ends as the watcher of
  \<open>snappedValue\<close> alone would have ended, and between two events, where that watcher is
  settled, the state after the event is the state before. For every upstream value \<open>u\<close>
  the raw position is overwritten, with \<^verbatim>\<open>u ?? min\<close>, exactly when that value differs
  from the derived quantized value.
\<close>

theorem setFromUpstream_echo_is_silent:
  assumes "snappedValue str p (rawSliderValue s) = v" and "v \<noteq> NaN"
  shows "watch_modelValue str p (Some v) s = s \<and>
         setFromUpstream str p (Some v) s = watch_snappedValue str p s \<and>
         (settled str p s \<longrightarrow>
            setFromUpstream str p (Some v) s = s \<and>
            emitted (setFromUpstream str p (Some v) s) = emitted s) \<and>
         rawSliderValue (setFromUpstream str p (Some v) s) = rawSliderValue s \<and>
         rawSliderValue (setFromUpstream str p u s) =
           (if strict_neq (nullish u (min_prop p)) (snappedValue str p (rawSliderValue s))
            then nullish u (min_prop p) else rawSliderValue s)"
proof -
  have callback: "watch_modelValue str p (Some v) s = s"
    using assms by (simp add: watch_modelValue_def strict_neq_def Let_def)
  then have event: "setFromUpstream str p (Some v) s = watch_snappedValue str p s"
    by (simp add: setFromUpstream_def)
  have raw: "rawSliderValue (watch_snappedValue str p t) = rawSliderValue t" for t
    by (simp add: watch_snappedValue_def Let_def)
  have "rawSliderValue (setFromUpstream str p u s) =
      (if strict_neq (nullish u (min_prop p)) (snappedValue str p (rawSliderValue s))
       then nullish u (min_prop p) else rawSliderValue s)"
    by (simp add: setFromUpstream_def raw watch_modelValue_def Let_def)
  with callback event show ?thesis
    by (simp add: raw watch_snappedValue_settled)
qed

text \<open>
  The theorem at the range 0 to 10 with step 1: the raw position 3.6 is shown as 4, the
  echo of 4 changes nothing, and the upstream value 7 moves the raw position to 7.
\<close>

theorem setFromUpstream_echo_is_silent_witness:
  "settled String_of_step
     \<lparr>min_prop = Fin 0, max_prop = Fin 10, step_prop = Fin 1, modelValue = Some (Fin 1),
        showInput = True\<rparr>
     \<lparr>rawSliderValue = Fin (18 / 5), watched = Fin 4, emitted = [Fin 4]\<rparr> \<and>
   snappedValue String_of_step
     \<lparr>min_prop = Fin 0, max_prop = Fin 10, step_prop = Fin 1, modelValue = Some (Fin 1),
        showInput = True\<rparr> (Fin (18 / 5)) = Fin 4 \<and>
   setFromUpstream String_of_step
     \<lparr>min_prop = Fin 0, max_prop = Fin 10, step_prop = Fin 1, modelValue = Some (Fin 1),
        showInput = True\<rparr> (Some (Fin 4))
     \<lparr>rawSliderValue = Fin (18 / 5), watched = Fin 4, emitted = [Fin 4]\<rparr> =
     \<lparr>rawSliderValue = Fin (18 / 5), watched = Fin 4, emitted = [Fin 4]\<rparr> \<and>
   rawSliderValue (setFromUpstream String_of_step
     \<lparr>min_prop = Fin 0, max_prop = Fin 10, step_prop = Fin 1, modelValue = Some (Fin 1),
        showInput = True\<rparr> (Some (Fin 7))
     \<lparr>rawSliderValue = Fin (18 / 5), watched = Fin 4, emitted = [Fin 4]\<rparr>) = Fin 7"
proof -
  let ?p = "\<lparr>min_prop = Fin 0, max_prop = Fin 10, step_prop = Fin 1,
             modelValue = Some (Fin 1), showInput = True\<rparr>"
  let ?s = "\<lparr>rawSliderValue = Fin (18 / 5), watched = Fin 4, emitted = [Fin 4]\<rparr>"
  have q: "snappedValue String_of_step ?p (Fin (18 / 5)) = Fin 4"
    by (simp add: slider_eval cong: let_weak_cong)
  have st: "settled String_of_step ?p ?s"
    unfolding settled_def using q by simp
  have n: "Fin 4 \<noteq> NaN"
    by simp
  have r: "rawSliderValue ?s = Fin (18 / 5)"
    by simp
  note t = setFromUpstream_echo_is_silent [of String_of_step ?p ?s "Fin 4" "Some (Fin 7)",
      unfolded r, OF q n]
  from t st have a: "setFromUpstream String_of_step ?p (Some (Fin 4)) ?s = ?s"
    by blast
  from t have "rawSliderValue (setFromUpstream String_of_step ?p (Some (Fin 7)) ?s) =
            (if strict_neq (nullish (Some (Fin 7)) (min_prop ?p))
                  (snappedValue String_of_step ?p (Fin (18 / 5)))
             then nullish (Some (Fin 7)) (min_prop ?p) else Fin (18 / 5))"
    by blast
  then have "rawSliderValue (setFromUpstream String_of_step ?p (Some (Fin 7)) ?s) = Fin 7"
    by (simp add: q strict_neq_def)
  with q st a show ?thesis
    by blast
qed

text \<open>
  C2. Range containment: for every range with \<open>min \<le> max\<close> and \<open>step > 0\<close> and every
  real raw position, the quantized value lies within \<open>[min, max]\<close>. The code clamps
  twice and then rounds to the decimals of the step, and the rounding leaves the range
  when a bound has more decimals than the step: with min 0.25, max 0.75 and step 1 the
  raw position 0.25 is quantized to 0 and the raw position 0.75 to 1.
\<close>

theorem snappedValue_leaves_range:
  "snappedValue String_of_step \<lparr>min_prop = Fin (1 / 4), max_prop = Fin (3 / 4),
      step_prop = Fin 1, modelValue = None, showInput = True\<rparr> (Fin (1 / 4)) = Fin 0 \<and>
   snappedValue String_of_step \<lparr>min_prop = Fin (1 / 4), max_prop = Fin (3 / 4),
      step_prop = Fin 1, modelValue = None, showInput = True\<rparr> (Fin (3 / 4)) = Fin 1 \<and>
   \<not> js_le (Fin (1 / 4)) (Fin 0) \<and> \<not> js_le (Fin 1) (Fin (3 / 4))"
  by (simp add: slider_eval cong: let_weak_cong)

text \<open>
  C3. Idempotence: for every valid range and every real \<open>x\<close>, quantizing the quantized
  value gives it back. In the code the last rounding moves the value off the lattice
  \<open>min + k * step\<close> when \<open>min\<close> has more decimals than the step, and the next
  quantization snaps it one step further: with min 0.5, max 10 and step 1 the raw
  position 0.5 is quantized to 1, and 1 is quantized to 2.
\<close>

theorem snappedValue_applied_twice:
  "snappedValue String_of_step \<lparr>min_prop = Fin (1 / 2), max_prop = Fin 10,
      step_prop = Fin 1, modelValue = None, showInput = True\<rparr> (Fin (1 / 2)) = Fin 1 \<and>
   snappedValue String_of_step \<lparr>min_prop = Fin (1 / 2), max_prop = Fin 10,
      step_prop = Fin 1, modelValue = None, showInput = True\<rparr>
     (snappedValue String_of_step \<lparr>min_prop = Fin (1 / 2), max_prop = Fin 10,
        step_prop = Fin 1, modelValue = None, showInput = True\<rparr> (Fin (1 / 2))) = Fin 2"
  by (simp add: slider_eval cong: let_weak_cong)

text \<open>
  C4. The claim: the raw position starts at the upstream value, and at \<open>min\<close> when the
  upstream value is absent, so that the initial value defaults to \<open>min\<close>. In the code
  the prop \<^verbatim>\<open>modelValue\<close> declares the default 1, which a model value that is not
  passed takes before \<^verbatim>\<open>?? props.min\<close> is reached: mounted without any prop, the
  component has min 0 and starts at 1.
\<close>

theorem mount_default_is_one:
  "min_prop (defineProps \<lparr>min_attr = None, max_attr = None, step_attr = None,
      modelValue_attr = Undefined, showInput_attr = None\<rparr>) = Fin 0 \<and>
   rawSliderValue (mount String_of_step (defineProps \<lparr>min_attr = None, max_attr = None,
      step_attr = None, modelValue_attr = Undefined, showInput_attr = None\<rparr>)) = Fin 1"
  by (simp add: mount_def defineProps_def Let_def)

text \<open>
  C4 as amended: the raw position starts at the upstream value when one is passed, at
  \<open>min\<close> when the upstream value is \<^verbatim>\<open>null\<close>, and at the declared default 1 when no
  upstream value is passed; \<open>min\<close> defaults to 0, \<open>max\<close> to 100 and \<open>step\<close> to 1.
\<close>

theorem mount_initial_value:
  "rawSliderValue (mount str (defineProps a)) =
     (case modelValue_attr a of
        Undefined \<Rightarrow> Fin 1
      | Null \<Rightarrow> min_prop (defineProps a)
      | Value v \<Rightarrow> v) \<and>
   min_prop (defineProps a) = (case min_attr a of None \<Rightarrow> Fin 0 | Some v \<Rightarrow> v) \<and>
   max_prop (defineProps a) = (case max_attr a of None \<Rightarrow> Fin 100 | Some v \<Rightarrow> v) \<and>
   step_prop (defineProps a) = (case step_attr a of None \<Rightarrow> Fin 1 | Some v \<Rightarrow> v)"
  by (cases "modelValue_attr a") (simp_all add: mount_def defineProps_def Let_def)

text \<open>
  C5. The claim: a value delivered by an input event that is not a finite number or not
  a number at all is rejected silently, the previous raw position being kept. The
  handler of the number field converts the text and keeps the raw position when the
  conversion is not finite (lemma \<open>onNumberInput_rejects\<close>), but the empty text, which
  the field delivers when it is cleared or when what was typed is not a number, converts
  to 0: \<^verbatim>\<open>Number("")\<close> is 0, a finite number, and the raw position is overwritten with 0.
\<close>

theorem number_input_accepts_empty_text:
  assumes "toNumber [] = Fin 0"
  shows "onNumberInput toNumber [] s = s\<lparr>rawSliderValue := Fin 0\<rparr> \<and>
         rawSliderValue (numberInput str p toNumber [] s) = Fin 0"
proof -
  have "onNumberInput toNumber [] s = s\<lparr>rawSliderValue := Fin 0\<rparr>"
    using assms by (simp add: onNumberInput_def)
  moreover have "rawSliderValue (watch_snappedValue str p t) = rawSliderValue t" for t
    by (simp add: watch_snappedValue_def Let_def)
  ultimately show ?thesis
    by (simp add: numberInput_def)
qed

text \<open>
  The theorem in the range 0 to 10 with step 1 at the raw position 4: the number field is
  cleared, the raw position becomes 0 and 0 is emitted.
\<close>

theorem number_input_accepts_empty_text_witness:
  "Number_of_text [] = Fin 0 \<and>
   onNumberInput Number_of_text []
      \<lparr>rawSliderValue = Fin 4, watched = Fin 4, emitted = []\<rparr> =
     \<lparr>rawSliderValue = Fin 0, watched = Fin 4, emitted = []\<rparr> \<and>
   numberInput String_of_step \<lparr>min_prop = Fin 0, max_prop = Fin 10, step_prop = Fin 1,
        modelValue = Some (Fin 4), showInput = True\<rparr> Number_of_text []
      \<lparr>rawSliderValue = Fin 4, watched = Fin 4, emitted = []\<rparr> =
     \<lparr>rawSliderValue = Fin 0, watched = Fin 0, emitted = [Fin 0]\<rparr>"
proof -
  let ?p = "\<lparr>min_prop = Fin 0, max_prop = Fin 10, step_prop = Fin 1,
             modelValue = Some (Fin 4), showInput = True\<rparr>"
  let ?s = "\<lparr>rawSliderValue = Fin 4, watched = Fin 4, emitted = []\<rparr>"
  have h: "Number_of_text [] = Fin 0"
    by (simp add: Number_of_text_def)
  from number_input_accepts_empty_text [of Number_of_text ?s String_of_step ?p, OF h]
  have a: "onNumberInput Number_of_text [] ?s = \<lparr>rawSliderValue = Fin 0, watched = Fin 4, emitted = []\<rparr>"
    by simp
  have q: "snappedValue String_of_step ?p (Fin 0) = Fin 0"
    by (simp add: slider_eval cong: let_weak_cong)
  have "numberInput String_of_step ?p Number_of_text [] ?s =
      \<lparr>rawSliderValue = Fin 0, watched = Fin 0, emitted = [Fin 0]\<rparr>"
    unfolding numberInput_def a by (simp add: watch_snappedValue_def q Let_def)
  with h a show ?thesis
    by simp
qed

text \<open>
  C6. The claim: a step that is zero or negative is treated as step 1. The code
  replaces a step by 1 only when it is falsy (\<^verbatim>\<open>props.step || 1\<close>), and a negative step
  is truthy: with min 0, max 10 and the raw position 2.4, the step -0.5 gives 2.5 where
  the step 1 gives 2.
\<close>

theorem negative_step_is_kept:
  "snappedValue String_of_step \<lparr>min_prop = Fin 0, max_prop = Fin 10,
      step_prop = Fin (- (1 / 2)), modelValue = None, showInput = True\<rparr> (Fin (12 / 5)) =
     Fin (5 / 2) \<and>
   snappedValue String_of_step \<lparr>min_prop = Fin 0, max_prop = Fin 10,
      step_prop = Fin 1, modelValue = None, showInput = True\<rparr> (Fin (12 / 5)) = Fin 2"
  by (simp add: slider_eval cong: let_weak_cong)

text \<open>
  C6 as amended: the step 0 is quantized as the step 1 is. A negative step is not
  replaced: the snapping divides by it and multiplies by it, and the decimals are counted
  in its own text. For every step, every range and every raw position no division by zero
  occurs: quantization and the position fraction computed with the checked division give
  their results, never \<open>None\<close>; the functions are total, there is no loop. A zero-span
  range gives the position fraction 0.
\<close>

theorem degenerate_ranges:
  "snappedValue str (p\<lparr>step_prop := Fin 0\<rparr>) raw =
     snappedValue str (p\<lparr>step_prop := Fin 1\<rparr>) raw \<and>
   (s < 0 \<longrightarrow>
      snappedValue str (p\<lparr>step_prop := Fin s\<rparr>) raw =
        roundToStepPrecision str (p\<lparr>step_prop := Fin s\<rparr>)
          (Math_min (max_prop p) (Math_max (min_prop p)
            (js_add (min_prop p)
              (js_mul
                (Math_round
                  (js_div
                    (js_sub (Math_min (max_prop p) (Math_max (min_prop p) raw)) (min_prop p))
                    (Fin s)))
                (Fin s))))) \<and>
      stepDecimals str (p\<lparr>step_prop := Fin s\<rparr>) =
        (case indexOf (str (Fin s)) CHR ''.'' of
           None \<Rightarrow> 0
         | Some dotIndex \<Rightarrow> length (str (Fin s)) - dotIndex - 1)) \<and>
   snappedValue_checked str p raw = Some (snappedValue str p raw) \<and>
   sliderValPercent_checked p raw = Some (sliderValPercent p raw) \<and>
   (max_prop p = min_prop p \<longrightarrow> sliderValPercent p raw = Fin 0)"
proof -
  have "snappedValue str (p\<lparr>step_prop := Fin 0\<rparr>) raw =
        snappedValue str (p\<lparr>step_prop := Fin 1\<rparr>) raw"
    by (simp add: snappedValue_def roundToStepPrecision_def stepDecimals_def js_or_def)
  moreover have "snappedValue str (p\<lparr>step_prop := Fin s\<rparr>) raw =
        roundToStepPrecision str (p\<lparr>step_prop := Fin s\<rparr>)
          (Math_min (max_prop p) (Math_max (min_prop p)
            (js_add (min_prop p)
              (js_mul
                (Math_round
                  (js_div
                    (js_sub (Math_min (max_prop p) (Math_max (min_prop p) raw)) (min_prop p))
                    (Fin s)))
                (Fin s)))))" if "s < 0"
    using that by (simp add: snappedValue_def js_or_def Let_def)
  moreover have "stepDecimals str (p\<lparr>step_prop := Fin s\<rparr>) =
        (case indexOf (str (Fin s)) CHR ''.'' of
           None \<Rightarrow> 0
         | Some dotIndex \<Rightarrow> length (str (Fin s)) - dotIndex - 1)" if "s < 0"
    using that by (simp add: stepDecimals_def js_or_def Let_def)
  ultimately show ?thesis
    by (simp add: snappedValue_checked sliderValPercent_checked sliderValPercent_zero_width)
qed

text \<open>
  The theorem at the step -0.5 in the range 0 to 10 with the raw position 2.4, and at the
  range from 5 to 5 with step 0 and the raw position 7.
\<close>

theorem degenerate_ranges_witness:
  "- (1 / 2) < (0 :: real) \<and>
   snappedValue String_of_step \<lparr>min_prop = Fin 0, max_prop = Fin 10,
      step_prop = Fin (- (1 / 2)), modelValue = None, showInput = True\<rparr> (Fin (12 / 5)) =
     Fin (5 / 2) \<and>
   stepDecimals String_of_step \<lparr>min_prop = Fin 0, max_prop = Fin 10,
      step_prop = Fin (- (1 / 2)), modelValue = None, showInput = True\<rparr> = 1 \<and>
   max_prop \<lparr>min_prop = Fin 5, max_prop = Fin 5, step_prop = Fin 0,
      modelValue = None, showInput = True\<rparr> =
   min_prop \<lparr>min_prop = Fin 5, max_prop = Fin 5, step_prop = Fin 0,
      modelValue = None, showInput = True\<rparr> \<and>
   snappedValue String_of_step \<lparr>min_prop = Fin 5, max_prop = Fin 5, step_prop = Fin 0,
      modelValue = None, showInput = True\<rparr> (Fin 7) =
   snappedValue String_of_step \<lparr>min_prop = Fin 5, max_prop = Fin 5, step_prop = Fin 1,
      modelValue = None, showInput = True\<rparr> (Fin 7) \<and>
   snappedValue_checked String_of_step \<lparr>min_prop = Fin 5, max_prop = Fin 5,
      step_prop = Fin 0, modelValue = None, showInput = True\<rparr> (Fin 7) = Some (Fin 5) \<and>
   sliderValPercent \<lparr>min_prop = Fin 5, max_prop = Fin 5, step_prop = Fin 0,
      modelValue = None, showInput = True\<rparr> (Fin 7) = Fin 0"
proof -
  let ?p = "\<lparr>min_prop = Fin 5, max_prop = Fin 5, step_prop = Fin 0,
             modelValue = None, showInput = True\<rparr>"
  let ?q = "\<lparr>min_prop = Fin 5, max_prop = Fin 5, step_prop = Fin 1,
             modelValue = None, showInput = True\<rparr>"
  let ?r = "\<lparr>min_prop = Fin 0, max_prop = Fin 10, step_prop = Fin 1,
             modelValue = None, showInput = True\<rparr>"
  let ?n = "\<lparr>min_prop = Fin 0, max_prop = Fin 10, step_prop = Fin (- (1 / 2)),
             modelValue = None, showInput = True\<rparr>"
  have u: "?p\<lparr>step_prop := Fin 0\<rparr> = ?p" "?p\<lparr>step_prop := Fin 1\<rparr> = ?q"
    "?r\<lparr>step_prop := Fin (- (1 / 2))\<rparr> = ?n"
    by simp_all
  have neg: "- (1 / 2) < (0 :: real)"
    by simp
  have zero: "max_prop ?p = min_prop ?p"
    by simp
  note a = degenerate_ranges [of String_of_step ?r "Fin (12 / 5)" "- (1 / 2)", unfolded u]
  note b = degenerate_ranges [of String_of_step ?p "Fin 7" "- (1 / 2)", unfolded u]
  from a neg have "snappedValue String_of_step ?n (Fin (12 / 5)) =
      roundToStepPrecision String_of_step ?n
        (Math_min (max_prop ?r) (Math_max (min_prop ?r)
          (js_add (min_prop ?r)
            (js_mul
              (Math_round
                (js_div
                  (js_sub (Math_min (max_prop ?r) (Math_max (min_prop ?r) (Fin (12 / 5))))
                    (min_prop ?r))
                  (Fin (- (1 / 2)))))
              (Fin (- (1 / 2)))))))"
    by blast
  also have "\<dots> = Fin (5 / 2)"
    by (simp add: roundToStepPrecision_def stepDecimals_def js_or_def js_pow10_def
        String_of_step_def b64_eval cong: let_weak_cong)
  finally have e1: "snappedValue String_of_step ?n (Fin (12 / 5)) = Fin (5 / 2)" .
  from a neg have "stepDecimals String_of_step ?n =
      (case indexOf (String_of_step (Fin (- (1 / 2)))) CHR ''.'' of
         None \<Rightarrow> 0
       | Some dotIndex \<Rightarrow> length (String_of_step (Fin (- (1 / 2)))) - dotIndex - 1)"
    by blast
  then have e2: "stepDecimals String_of_step ?n = 1"
    by (simp add: String_of_step_def)
  from b have e3: "snappedValue String_of_step ?p (Fin 7) =
      snappedValue String_of_step ?q (Fin 7)"
    by blast
  from b have "snappedValue_checked String_of_step ?p (Fin 7) =
      Some (snappedValue String_of_step ?p (Fin 7))"
    by blast
  moreover have "snappedValue String_of_step ?p (Fin 7) = Fin 5"
    by (simp add: slider_eval cong: let_weak_cong)
  ultimately have e4: "snappedValue_checked String_of_step ?p (Fin 7) = Some (Fin 5)"
    by simp
  from b zero have e5: "sliderValPercent ?p (Fin 7) = Fin 0"
    by blast
  from neg e1 e2 zero e3 e4 e5 show ?thesis
    by blast
qed

text \<open>
  C7. The concrete scenarios: in the range 0 to 10 with step 1 the raw inputs 3.6, -5
  and 100 are quantized to 4, 0 and 10; in the range 0 to 1 with step 0.25 the raw
  inputs 0.9, 0.1 and 0.4 are quantized to 1, 0 and 0.5. The texts of the two steps are
  \<^verbatim>\<open>"1"\<close> and \<^verbatim>\<open>"0.25"\<close>.
\<close>

theorem concrete_scenarios:
  assumes "str (Fin 1) = ''1''" and "str (Fin (1 / 4)) = ''0.25''"
  shows "snappedValue str \<lparr>min_prop = Fin 0, max_prop = Fin 10, step_prop = Fin 1,
            modelValue = m, showInput = b\<rparr> (Fin (36 / 10)) = Fin 4 \<and>
         snappedValue str \<lparr>min_prop = Fin 0, max_prop = Fin 10, step_prop = Fin 1,
            modelValue = m, showInput = b\<rparr> (Fin (- 5)) = Fin 0 \<and>
         snappedValue str \<lparr>min_prop = Fin 0, max_prop = Fin 10, step_prop = Fin 1,
            modelValue = m, showInput = b\<rparr> (Fin 100) = Fin 10 \<and>
         snappedValue str \<lparr>min_prop = Fin 0, max_prop = Fin 1, step_prop = Fin (1 / 4),
            modelValue = m, showInput = b\<rparr> (Fin (9 / 10)) = Fin 1 \<and>
         snappedValue str \<lparr>min_prop = Fin 0, max_prop = Fin 1, step_prop = Fin (1 / 4),
            modelValue = m, showInput = b\<rparr> (Fin (1 / 10)) = Fin 0 \<and>
         snappedValue str \<lparr>min_prop = Fin 0, max_prop = Fin 1, step_prop = Fin (1 / 4),
            modelValue = m, showInput = b\<rparr> (Fin (4 / 10)) = Fin (1 / 2)"
proof -
  note ev = snappedValue_def roundToStepPrecision_def stepDecimals_def
    js_or_def js_pow10_def b64_eval
  have "snappedValue str \<lparr>min_prop = Fin 0, max_prop = Fin 10, step_prop = Fin 1,
            modelValue = m, showInput = b\<rparr> (Fin (36 / 10)) = Fin 4"
    using assms(1) by (simp add: ev cong: let_weak_cong)
  moreover have "snappedValue str \<lparr>min_prop = Fin 0, max_prop = Fin 10, step_prop = Fin 1,
            modelValue = m, showInput = b\<rparr> (Fin (- 5)) = Fin 0"
    using assms(1) by (simp add: ev cong: let_weak_cong)
  moreover have "snappedValue str \<lparr>min_prop = Fin 0, max_prop = Fin 10, step_prop = Fin 1,
            modelValue = m, showInput = b\<rparr> (Fin 100) = Fin 10"
    using assms(1) by (simp add: ev cong: let_weak_cong)
  moreover have "snappedValue str \<lparr>min_prop = Fin 0, max_prop = Fin 1,
            step_prop = Fin (1 / 4), modelValue = m, showInput = b\<rparr> (Fin (9 / 10)) = Fin 1"
    using assms(2) by (simp add: ev cong: let_weak_cong)
  moreover have "snappedValue str \<lparr>min_prop = Fin 0, max_prop = Fin 1,
            step_prop = Fin (1 / 4), modelValue = m, showInput = b\<rparr> (Fin (1 / 10)) = Fin 0"
    using assms(2) by (simp add: ev cong: let_weak_cong)
  moreover have "snappedValue str \<lparr>min_prop = Fin 0, max_prop = Fin 1,
            step_prop = Fin (1 / 4), modelValue = m, showInput = b\<rparr> (Fin (4 / 10)) =
          Fin (1 / 2)"
    using assms(2) by (simp add: ev cong: let_weak_cong)
  ultimately show ?thesis
    by blast
qed

text \<open>The theorem with the texts of the steps 1 and 0.25 as the language prints them.\<close>

theorem concrete_scenarios_witness:
  "String_of_step (Fin 1) = ''1'' \<and> String_of_step (Fin (1 / 4)) = ''0.25'' \<and>
   snappedValue String_of_step \<lparr>min_prop = Fin 0, max_prop = Fin 10, step_prop = Fin 1,
      modelValue = None, showInput = True\<rparr> (Fin (36 / 10)) = Fin 4 \<and>
   snappedValue String_of_step \<lparr>min_prop = Fin 0, max_prop = Fin 1, step_prop = Fin (1 / 4),
      modelValue = None, showInput = True\<rparr> (Fin (4 / 10)) = Fin (1 / 2)"
proof -
  have h1: "String_of_step (Fin 1) = ''1''"
    by (simp add: String_of_step_def)
  have h2: "String_of_step (Fin (1 / 4)) = ''0.25''"
    by (simp add: String_of_step_def)
  from concrete_scenarios [OF h1 h2, of None True] h1 h2 show ?thesis
    by blast
qed

text \<open>
  C8. Zero-width range: for \<open>min = max\<close> and every raw position the position fraction
  is 0 and the quantized value is \<open>min\<close>. The fraction is 0 (lemma
  \<open>sliderValPercent_zero_width\<close>), and in the scenario of the range from 5 to 5 the
  quantized value is 5 (lemma \<open>scenario_zero_width\<close>); but the last rounding moves the
  quantized value away from a \<open>min\<close> that has more decimals than the step: in the range
  from 0.5 to 0.5 with step 1 every raw position is quantized to 1.
\<close>

theorem zero_width_off_grid:
  "snappedValue String_of_step \<lparr>min_prop = Fin (1 / 2), max_prop = Fin (1 / 2),
      step_prop = Fin 1, modelValue = None, showInput = True\<rparr> (Fin x) = Fin 1 \<and>
   sliderValPercent \<lparr>min_prop = Fin (1 / 2), max_prop = Fin (1 / 2),
      step_prop = Fin 1, modelValue = None, showInput = True\<rparr> (Fin x) = Fin 0"
  by (simp add: slider_eval cong: let_weak_cong)



text \<open>
  C10. Ties: a clamped raw position exactly midway between the lattice points
  \<open>min + k * step\<close> and \<open>min + (k + 1) * step\<close>, both in range, is quantized to the
  larger one. The snapping does take the larger one, but the last rounding then moves the
  result when that point has more decimals than the step: with min 0.25, max 10 and step
  0.5 the raw position 0.5, midway between 0.25 and 0.75, is quantized to the number
  written 0.8, which is not 0.75.
\<close>

theorem tie_off_grid:
  "Fin (1 / 2) = Fin (1 / 4 + (0 + 1 / 2) * (1 / 2)) \<and>
   snappedValue String_of_step \<lparr>min_prop = Fin (1 / 4), max_prop = Fin 10,
      step_prop = Fin (1 / 2), modelValue = None, showInput = True\<rparr> (Fin (1 / 2)) =
     b64 (4 / 5) \<and>
   b64 (4 / 5) \<noteq> Fin (3 / 4)"
  by (simp add: slider_eval cong: let_weak_cong)

end
